theory Spec2Isabelle
  imports Main
begin

section \<open>Python string primitives used by backend/app.py\<close>

text \<open>
  Strings are lists of characters. A \<^typ>\<open>char\<close> stands for a Unicode code point
  below 256; on that range the classifications below are the ones of CPython's
  \<^verbatim>\<open>str.isspace\<close>, \<^verbatim>\<open>str.isdigit\<close> and \<^verbatim>\<open>str.lower\<close>. Code points from 256 on are
  outside the model.
\<close>

definition isspace :: "char \<Rightarrow> bool" where
  "isspace c = (of_char c \<in> set [9, 10, 11, 12, 13, 28, 29, 30, 31, 32, 133, 160 :: nat])"

definition isdigit :: "char \<Rightarrow> bool" where
  "isdigit c = (let n = (of_char c :: nat) in (48 \<le> n \<and> n \<le> 57) \<or> n = 178 \<or> n = 179 \<or> n = 185)"

definition lower_char :: "char \<Rightarrow> char" where
  "lower_char c =
     (let n = (of_char c :: nat) in
      if (65 \<le> n \<and> n \<le> 90) \<or> (192 \<le> n \<and> n \<le> 214) \<or> (216 \<le> n \<and> n \<le> 222)
      then char_of (n + 32) else c)"

text \<open>\<^verbatim>\<open>s.lower()\<close>\<close>

definition lower :: "string \<Rightarrow> string" where
  "lower s = map lower_char s"

text \<open>\<^verbatim>\<open>s.replace(a, b)\<close> for single-character \<open>a\<close> and \<open>b\<close>\<close>

definition replace :: "char \<Rightarrow> char \<Rightarrow> string \<Rightarrow> string" where
  "replace a b s = map (\<lambda>c. if c = a then b else c) s"

text \<open>\<^verbatim>\<open>s.strip()\<close>\<close>

definition strip :: "string \<Rightarrow> string" where
  "strip s = rev (dropWhile isspace (rev (dropWhile isspace s)))"

text \<open>\<^verbatim>\<open>s.split(c)\<close> for a single-character separator: never the empty list.\<close>

fun split :: "char \<Rightarrow> string \<Rightarrow> string list" where
  "split c [] = [[]]"
| "split c (x # xs) =
     (if x = c then [] # split c xs
      else (case split c xs of
              [] \<Rightarrow> [[x]]
            | p # ps \<Rightarrow> (x # p) # ps))"

text \<open>\<^verbatim>\<open>s.split(c, 1)[1]\<close>, used only where \<open>c\<close> occurs in \<open>s\<close>: the text after the first \<open>c\<close>.\<close>

definition after_first :: "char \<Rightarrow> string \<Rightarrow> string" where
  "after_first c s = drop 1 (dropWhile (\<lambda>x. x \<noteq> c) s)"

fun startswith :: "string \<Rightarrow> string \<Rightarrow> bool" where
  "startswith s [] = True"
| "startswith [] (p # ps) = False"
| "startswith (c # cs) (p # ps) = (c = p \<and> startswith cs ps)"

text \<open>\<^verbatim>\<open>sub in s\<close> on strings: \<open>sub\<close> starts at some position of \<open>s\<close>.\<close>

fun str_in :: "string \<Rightarrow> string \<Rightarrow> bool" where
  "str_in sub [] = (sub = [])"
| "str_in sub (c # cs) = (startswith (c # cs) sub \<or> str_in sub cs)"

section \<open>Dictionaries\<close>

text \<open>
  A Python dict in insertion order is an association list. \<^verbatim>\<open>d[k] = v\<close> overwrites the
  value of a key that is present, in place, and appends a new key at the end.
\<close>

fun dict_set :: "'k \<Rightarrow> 'v \<Rightarrow> ('k \<times> 'v) list \<Rightarrow> ('k \<times> 'v) list" where
  "dict_set k v [] = [(k, v)]"
| "dict_set k v ((k', v') # kvs) =
     (if k' = k then (k, v) # kvs else (k', v') # dict_set k v kvs)"

definition keys :: "('k \<times> 'v) list \<Rightarrow> 'k list" where
  "keys d = map fst d"

section \<open>Knowledge base\<close>

type_synonym symptom_id = string
type_synonym check_id = string

record symptom_spec =
  required_checks :: "check_id list"

text \<open>
  \<^verbatim>\<open>knowledge_base['symptoms']\<close>: the object read from symptoms.json, in the order of
  the document. The document itself is not part of the sources, so every operation takes
  the table as its argument \<open>K\<close>.
\<close>

type_synonym knowledge_base = "(symptom_id \<times> symptom_spec) list"

type_synonym gaps = "(symptom_id \<times> check_id list) list"

section \<open>Symptom detection (extract\_symptoms lines 160-165, process\_interview lines 310-316)\<close>

text \<open>
  The same loop stands in both endpoints. Each of them answers an empty transcript with an
  error before the loop (lines 140-141 and 303-307), so the loop itself meets an empty
  transcript in neither.
\<close>

fun detect_loop :: "string \<Rightarrow> symptom_id list \<Rightarrow> symptom_id list \<Rightarrow> symptom_id list" where
  "detect_loop transcript_lower [] detected_symptoms = detected_symptoms"
| "detect_loop transcript_lower (symptom_key # rest) detected_symptoms =
     (let symptom_display = replace (CHR ''_'') (CHR '' '') symptom_key in
      if str_in symptom_display transcript_lower
      then detect_loop transcript_lower rest (detected_symptoms @ [symptom_key])
      else detect_loop transcript_lower rest detected_symptoms)"

definition detect_symptoms :: "knowledge_base \<Rightarrow> string \<Rightarrow> symptom_id list" where
  "detect_symptoms K transcript = detect_loop (lower transcript) (keys K) []"

section \<open>Gap analysis (gap\_analysis, lines 181-216)\<close>

text \<open>
  The request body, after JSON decoding: \<open>None\<close> is a key that is absent. The model is of
  well-typed bodies (a list of strings, an object of lists of strings), on which no
  statement of the \<^verbatim>\<open>try\<close> block raises.
\<close>

type_synonym coverage = "symptom_id \<Rightarrow> check_id list option"

record gap_request =
  gr_detected_symptoms :: "symptom_id list option"
  gr_covered_fields :: "coverage option"

record gap_response =
  g_success :: bool
  g_gaps :: gaps
  g_missing_checks :: "check_id list"
  g_detected_symptoms :: "symptom_id list"

text \<open>\<^verbatim>\<open>d.get(k, default)\<close>\<close>

definition get_default :: "('k \<Rightarrow> 'v option) \<Rightarrow> 'k \<Rightarrow> 'v \<Rightarrow> 'v" where
  "get_default d k dflt = (case d k of None \<Rightarrow> dflt | Some v \<Rightarrow> v)"

text \<open>The loop of lines 195-203, on the pair \<open>(gaps, missing_checks_list)\<close>.\<close>

fun gap_loop ::
  "knowledge_base \<Rightarrow> coverage \<Rightarrow> symptom_id list \<Rightarrow> gaps \<times> check_id list \<Rightarrow> gaps \<times> check_id list"
where
  "gap_loop K covered_fields [] acc = acc"
| "gap_loop K covered_fields (symptom # rest) (gaps, missing_checks_list) =
     (case map_of K symptom of
        None \<Rightarrow> gap_loop K covered_fields rest (gaps, missing_checks_list)
      | Some entry \<Rightarrow>
          (let required = required_checks entry;
               covered = get_default covered_fields symptom [];
               missing = filter (\<lambda>check. check \<notin> set covered) required
           in if missing \<noteq> []
              then gap_loop K covered_fields rest
                     (dict_set symptom missing gaps, missing_checks_list @ missing)
              else gap_loop K covered_fields rest (gaps, missing_checks_list)))"

text \<open>
  \<^verbatim>\<open>list(set(xs))\<close>: the elements of \<open>xs\<close>, each once. CPython's order follows the
  hashes of the strings and is not fixed by the program; \<open>remdups\<close> is one such
  enumeration, and the theorems below use only its elements and its distinctness.
\<close>

definition list_of_set :: "'a list \<Rightarrow> 'a list" where
  "list_of_set xs = remdups xs"

text \<open>Lines 189-190: \<^verbatim>\<open>data.get('detected_symptoms', [])\<close> and \<^verbatim>\<open>data.get('covered_fields', {})\<close>.\<close>

definition request_detected :: "gap_request \<Rightarrow> symptom_id list" where
  "request_detected data = (case gr_detected_symptoms data of None \<Rightarrow> [] | Some d \<Rightarrow> d)"

definition request_coverage :: "gap_request \<Rightarrow> coverage" where
  "request_coverage data = (case gr_covered_fields data of None \<Rightarrow> Map.empty | Some c \<Rightarrow> c)"

text \<open>The response body and the HTTP status.\<close>

definition gap_analysis :: "knowledge_base \<Rightarrow> gap_request \<Rightarrow> gap_response \<times> nat" where
  "gap_analysis K data =
     (let detected = request_detected data;
          covered_fields = request_coverage data;
          (gaps, missing_checks_list) = gap_loop K covered_fields detected ([], [])
      in (\<lparr>g_success = True, g_gaps = gaps,
           g_missing_checks = list_of_set missing_checks_list,
           g_detected_symptoms = detected\<rparr>, 200))"

text \<open>
  The specification's expression for one symptom, \<open>required_checks - covered_checks(symptom)\<close>
  in the declared order, with nothing missing for a symptom outside the table. The loop is
  compared with it below.
\<close>

definition missing_for :: "knowledge_base \<Rightarrow> coverage \<Rightarrow> symptom_id \<Rightarrow> check_id list" where
  "missing_for K C s =
     (case map_of K s of
        None \<Rightarrow> []
      | Some entry \<Rightarrow> filter (\<lambda>check. check \<notin> set (get_default C s [])) (required_checks entry))"

section \<open>Question parsing (generate\_questions lines 256-267, process\_interview lines 343-350)\<close>

text \<open>The body of the loop over the lines: the question the line contributes, if any.\<close>

definition parse_line :: "string \<Rightarrow> string option" where
  "parse_line raw =
     (let line = strip raw in
      if line \<noteq> [] \<and> length line > 5 then
        (let line' = (if isdigit (hd line) \<and> CHR ''.'' \<in> set (take 3 line)
                      then strip (after_first (CHR ''.'') line) else line)
         in if line' \<noteq> [] then Some line' else None)
      else None)"

fun parse_loop :: "string list \<Rightarrow> string list \<Rightarrow> string list" where
  "parse_loop [] questions = questions"
| "parse_loop (raw # rest) questions =
     (case parse_line raw of
        None \<Rightarrow> parse_loop rest questions
      | Some line \<Rightarrow> parse_loop rest (questions @ [line]))"

definition parse_questions :: "string \<Rightarrow> string list" where
  "parse_questions response_text = parse_loop (split (CHR 0x0A) (strip response_text)) []"

section \<open>External collaborators\<close>

text \<open>
  The Gemini call is a parameter \<open>llm\<close>. It stands for the construction of the prompt
  from the detected symptoms, the transcript and the gaps, \<^verbatim>\<open>model.generate_content\<close>
  and the read of \<^verbatim>\<open>.text\<close>: \<open>Inr\<close> is the text returned, \<open>Inl\<close> the message of the
  exception raised. Every call is recorded in a trace of events, so that a path on which
  the collaborator is not called can be told from one on which it is.
\<close>

type_synonym audio = string

datatype event =
    Transcribe_Call audio
  | Generate_Call "symptom_id list" string gaps

type_synonym llm = "symptom_id list \<Rightarrow> string \<Rightarrow> gaps \<Rightarrow> string + string"

text \<open>
  What AssemblyAI does with the audio: the call raises, or yields a transcript object
  with status error, or one with a text (which may be absent).
\<close>

datatype aai_outcome =
    AAI_Raises string
  | AAI_Status_Error string
  | AAI_Text "string option"

definition transcribe_audio :: "(audio \<Rightarrow> aai_outcome) \<Rightarrow> audio \<Rightarrow> string option" where
  "transcribe_audio aai audio_bytes =
     (case aai audio_bytes of
        AAI_Raises e \<Rightarrow> None
      | AAI_Status_Error e \<Rightarrow> None
      | AAI_Text t \<Rightarrow> t)"

section \<open>Question generation (generate\_questions, lines 219-283)\<close>

text \<open>
  The request body after JSON decoding, well-typed as for gap analysis; \<open>None\<close> is an
  absent key. The \<^verbatim>\<open>except\<close> branch is then reached by the collaborator alone.
\<close>

record questions_request =
  qr_detected_symptoms :: "symptom_id list option"
  qr_gaps :: "gaps option"
  qr_transcript :: "string option"

record questions_response =
  q_success :: bool
  q_error :: "string option"
  q_questions :: "string list"

definition generate_questions ::
  "llm \<Rightarrow> questions_request \<Rightarrow> (questions_response \<times> nat) \<times> event list" where
  "generate_questions llm data =
     (let detected = (case qr_detected_symptoms data of None \<Rightarrow> [] | Some d \<Rightarrow> d);
          gaps = (case qr_gaps data of None \<Rightarrow> [] | Some g \<Rightarrow> g);
          transcript = (case qr_transcript data of None \<Rightarrow> [] | Some t \<Rightarrow> t)
      in if detected = [] \<or> gaps = [] then
           ((\<lparr>q_success = True, q_error = None,
              q_questions = [''Please provide more information about your symptoms'']\<rparr>, 200), [])
         else
           (case llm detected transcript gaps of
              Inl e \<Rightarrow>
                ((\<lparr>q_success = False, q_error = Some e,
                   q_questions = [''Unable to generate questions at this time'']\<rparr>, 200),
                 [Generate_Call detected transcript gaps])
            | Inr response_text \<Rightarrow>
                (let parsed = parse_questions response_text;
                     qs = (if parsed = [] then [''What other symptoms are you experiencing?'']
                           else parsed)
                 in ((\<lparr>q_success = True, q_error = None, q_questions = take 5 qs\<rparr>, 200),
                     [Generate_Call detected transcript gaps]))))"

section \<open>The interview pipeline (process\_interview, lines 286-365)\<close>

text \<open>Step 3, lines 319-323: every detected symptom of the table gets all its checks.\<close>

fun initial_gaps :: "knowledge_base \<Rightarrow> symptom_id list \<Rightarrow> gaps \<Rightarrow> gaps" where
  "initial_gaps K [] gaps = gaps"
| "initial_gaps K (symptom # rest) gaps =
     (case map_of K symptom of
        None \<Rightarrow> initial_gaps K rest gaps
      | Some entry \<Rightarrow> initial_gaps K rest (dict_set symptom (required_checks entry) gaps))"

text \<open>
  The three shapes of the JSON body: \<^verbatim>\<open>{'error': e}\<close>, \<^verbatim>\<open>{'success': False, 'error': e}\<close>
  and the full analysis with \<^verbatim>\<open>'success': True\<close>, whose fields are \<^verbatim>\<open>transcript\<close>,
  \<^verbatim>\<open>detected_symptoms\<close>, \<^verbatim>\<open>diagnostic_gaps\<close>, \<^verbatim>\<open>gaps\<close> and \<^verbatim>\<open>suggested_questions\<close>.
\<close>

datatype interview_body =
    Error_Only string
  | Failure string
  | Analysis string "symptom_id list" gaps gaps "string list"

fun body_success :: "interview_body \<Rightarrow> bool option" where
  "body_success (Error_Only e) = None"
| "body_success (Failure e) = Some False"
| "body_success (Analysis t d g g' qs) = Some True"

fun body_error :: "interview_body \<Rightarrow> string option" where
  "body_error (Error_Only e) = Some e"
| "body_error (Failure e) = Some e"
| "body_error (Analysis t d g g' qs) = None"

fun body_questions :: "interview_body \<Rightarrow> string list option" where
  "body_questions (Analysis t d g g' qs) = Some qs"
| "body_questions b = None"

fun body_gaps :: "interview_body \<Rightarrow> gaps option" where
  "body_gaps (Analysis t d g g' qs) = Some g"
| "body_gaps b = None"

definition transcription_failed :: string where
  "transcription_failed =
     ''Failed to transcribe audio. Check your AssemblyAI API key and internet connection.''"

text \<open>The request carries the uploaded file \<^verbatim>\<open>request.files['audio']\<close>, or none.\<close>

definition process_interview ::
  "(audio \<Rightarrow> aai_outcome) \<Rightarrow> llm \<Rightarrow> knowledge_base \<Rightarrow> audio option
     \<Rightarrow> (interview_body \<times> nat) \<times> event list" where
  "process_interview aai llm K file =
     (case file of
        None \<Rightarrow> ((Error_Only ''No audio file provided'', 400), [])
      | Some audio_bytes \<Rightarrow>
          (case transcribe_audio aai audio_bytes of
             None \<Rightarrow> ((Failure transcription_failed, 500), [Transcribe_Call audio_bytes])
           | Some transcript \<Rightarrow>
               if transcript = [] then
                 ((Failure transcription_failed, 500), [Transcribe_Call audio_bytes])
               else
                 (let detected = detect_symptoms K transcript;
                      gaps = initial_gaps K detected []
                  in case llm detected transcript gaps of
                       Inl e \<Rightarrow>
                         ((Failure e, 500),
                          [Transcribe_Call audio_bytes, Generate_Call detected transcript gaps])
                     | Inr text \<Rightarrow>
                         ((Analysis transcript detected gaps gaps (take 5 (parse_questions text)),
                           200),
                          [Transcribe_Call audio_bytes, Generate_Call detected transcript gaps]))))"

section \<open>Concrete inputs\<close>

text \<open>The knowledge base and the coverage of the specification's examples 1 and 2.\<close>

definition example_kb :: knowledge_base where
  "example_kb =
     [(''chest_pain'', \<lparr>required_checks = [''duration'', ''severity'', ''radiation'']\<rparr>),
      (''fever'', \<lparr>required_checks = [''duration'', ''temperature'']\<rparr>)]"

definition example_coverage :: coverage where
  "example_coverage = [''chest_pain'' \<mapsto> [''duration'', ''severity'']]"

definition example_request :: gap_request where
  "example_request =
     \<lparr>gr_detected_symptoms = Some [''chest_pain'', ''fever'', ''cough'', ''fever''],
      gr_covered_fields = Some example_coverage\<rparr>"

definition uncovered_request :: gap_request where
  "uncovered_request =
     \<lparr>gr_detected_symptoms = Some [''chest_pain'', ''fever''], gr_covered_fields = None\<rparr>"

definition example_audio :: audio where
  "example_audio = ''RIFF''"

definition example_transcript :: string where
  "example_transcript = ''i have chest pain and a mild fever''"

definition example_aai :: "audio \<Rightarrow> aai_outcome" where
  "example_aai a = AAI_Text (Some example_transcript)"

definition failed_aai :: "audio \<Rightarrow> aai_outcome" where
  "failed_aai a = AAI_Status_Error ''audio too short''"

definition failing_llm :: llm where
  "failing_llm d t g = Inl ''quota exceeded''"

definition unreachable_llm :: llm where
  "unreachable_llm d t g = Inl ''connection refused''"

definition blank_llm :: llm where
  "blank_llm d t g = Inr ''N/A''"

definition example_questions_request :: questions_request where
  "example_questions_request =
     \<lparr>qr_detected_symptoms = Some [''fever''],
      qr_gaps = Some [(''fever'', [''duration'', ''temperature''])],
      qr_transcript = Some ''i have a fever''\<rparr>"

definition no_gaps_request :: questions_request where
  "no_gaps_request =
     \<lparr>qr_detected_symptoms = Some [''fever''], qr_gaps = None,
      qr_transcript = Some ''i have a fever''\<rparr>"

section \<open>Facts about the primitives\<close>



lemma map_of_dict_set: "map_of (dict_set k v d) = (map_of d)(k \<mapsto> v)"
  by (induction d) (auto simp: fun_eq_iff)

lemma keys_dict_set: "set (keys (dict_set k v d)) = insert k (set (keys d))"
proof (induction d)
  case Nil
  show ?case by (simp add: keys_def)
next
  case (Cons p d)
  obtain k' v' where p: "p = (k', v')" by (cases p)
  show ?case
  proof (cases "k' = k")
    case True
    then show ?thesis by (simp add: p keys_def)
  next
    case False
    then show ?thesis using Cons.IH by (simp add: p keys_def insert_commute)
  qed
qed

lemma distinct_dict_set: "distinct (keys d) \<Longrightarrow> distinct (keys (dict_set k v d))"
proof (induction d)
  case Nil
  show ?case by (simp add: keys_def)
next
  case (Cons p d)
  obtain k' v' where p: "p = (k', v')" by (cases p)
  have ks: "set (keys (dict_set k v d)) = insert k (set (keys d))" by (rule keys_dict_set)
  show ?case
  proof (cases "k' = k")
    case True
    then show ?thesis using Cons.prems by (simp add: p keys_def)
  next
    case False
    have "distinct (keys d)" and "k' \<notin> set (keys d)"
      using Cons.prems by (simp_all add: p keys_def)
    then have "distinct (keys (dict_set k v d))" and "k' \<notin> set (keys (dict_set k v d))"
      using Cons.IH ks False by simp_all
    then show ?thesis using False by (simp add: p keys_def)
  qed
qed

section \<open>The detection loop is a filter\<close>


section \<open>The gap loop against the specification's expression\<close>

lemma gap_loop_Cons:
  "gap_loop K C (s # D) (g, m) =
     (if missing_for K C s \<noteq> []
      then gap_loop K C D (dict_set s (missing_for K C s) g, m @ missing_for K C s)
      else gap_loop K C D (g, m))"
  by (simp add: missing_for_def Let_def split: option.splits)

lemma gap_loop_map:
  "map_of (fst (gap_loop K C D (g, m))) s =
     (if s \<in> set D \<and> missing_for K C s \<noteq> [] then Some (missing_for K C s) else map_of g s)"
  by (induction D arbitrary: g m)
     (simp_all add: gap_loop_Cons map_of_dict_set del: gap_loop.simps(2))

lemma gap_loop_keys:
  "set (keys (fst (gap_loop K C D (g, m)))) =
     set (keys g) \<union> {s \<in> set D. missing_for K C s \<noteq> []}"
  by (induction D arbitrary: g m)
     (auto simp: gap_loop_Cons keys_dict_set simp del: gap_loop.simps(2))

lemma gap_loop_distinct:
  "distinct (keys g) \<Longrightarrow> distinct (keys (fst (gap_loop K C D (g, m))))"
  by (induction D arbitrary: g m)
     (simp_all add: gap_loop_Cons distinct_dict_set del: gap_loop.simps(2))

lemma gap_loop_list:
  "set (snd (gap_loop K C D (g, m))) = set m \<union> (\<Union>s\<in>set D. set (missing_for K C s))"
  by (induction D arbitrary: g m)
     (auto simp: gap_loop_Cons simp del: gap_loop.simps(2))

lemma gap_loop_entries:
  "(s, v) \<in> set (fst (gap_loop K C D ([], []))) \<longleftrightarrow>
     s \<in> set D \<and> missing_for K C s \<noteq> [] \<and> v = missing_for K C s"
proof -
  have "distinct (map fst (fst (gap_loop K C D ([], []))))"
    using gap_loop_distinct [of "[]" K C D "[]"] by (simp add: keys_def)
  then have "(s, v) \<in> set (fst (gap_loop K C D ([], []))) \<longleftrightarrow>
               map_of (fst (gap_loop K C D ([], []))) s = Some v"
    by simp
  then show ?thesis by (auto simp: gap_loop_map)
qed

lemma gap_loop_values:
  "\<Union> (set ` snd ` set (fst (gap_loop K C D ([], [])))) = (\<Union>s\<in>set D. set (missing_for K C s))"
proof (rule set_eqI)
  fix c
  show "c \<in> \<Union> (set ` snd ` set (fst (gap_loop K C D ([], [])))) \<longleftrightarrow>
          c \<in> (\<Union>s\<in>set D. set (missing_for K C s))"
  proof
    assume "c \<in> \<Union> (set ` snd ` set (fst (gap_loop K C D ([], []))))"
    then obtain s v where "(s, v) \<in> set (fst (gap_loop K C D ([], [])))" and "c \<in> set v"
      by auto
    then have "s \<in> set D" and "c \<in> set (missing_for K C s)"
      by (simp_all add: gap_loop_entries)
    then show "c \<in> (\<Union>s\<in>set D. set (missing_for K C s))" by blast
  next
    assume "c \<in> (\<Union>s\<in>set D. set (missing_for K C s))"
    then obtain s where s: "s \<in> set D" "c \<in> set (missing_for K C s)" by blast
    then have "missing_for K C s \<noteq> []" by auto
    with s have "(s, missing_for K C s) \<in> set (fst (gap_loop K C D ([], [])))"
      by (simp add: gap_loop_entries)
    with s(2) show "c \<in> \<Union> (set ` snd ` set (fst (gap_loop K C D ([], []))))"
      by force
  qed
qed

lemma missing_for_unknown: "s \<notin> set (keys K) \<Longrightarrow> missing_for K C s = []"
  by (simp add: missing_for_def keys_def map_of_eq_None_iff [THEN iffD2])

lemma gap_loop_removeAll:
  "missing_for K C s = [] \<Longrightarrow> gap_loop K C (removeAll s D) (g, m) = gap_loop K C D (g, m)"
  by (induction D arbitrary: g m) (auto simp: gap_loop_Cons simp del: gap_loop.simps(2))

lemma gap_analysis_unfold:
  "gap_analysis K data =
     (\<lparr>g_success = True,
       g_gaps = fst (gap_loop K (request_coverage data) (request_detected data) ([], [])),
       g_missing_checks =
         list_of_set (snd (gap_loop K (request_coverage data) (request_detected data) ([], []))),
       g_detected_symptoms = request_detected data\<rparr>, 200)"
  by (simp add: gap_analysis_def Let_def split: prod.splits)

lemma gap_analysis_gaps:
  "g_gaps (fst (gap_analysis K data)) =
     fst (gap_loop K (request_coverage data) (request_detected data) ([], []))"
  by (simp add: gap_analysis_unfold)

lemma gap_analysis_missing_checks:
  "g_missing_checks (fst (gap_analysis K data)) =
     list_of_set (snd (gap_loop K (request_coverage data) (request_detected data) ([], [])))"
  by (simp add: gap_analysis_unfold)

lemma initial_gaps_map:
  "map_of (initial_gaps K D g) s =
     (case (if s \<in> set D then map_of K s else None) of
        None \<Rightarrow> map_of g s
      | Some entry \<Rightarrow> Some (required_checks entry))"
  by (induction D arbitrary: g) (auto simp: map_of_dict_set split: option.splits)

section \<open>Gap analysis\<close>

text \<open>
  Claim C2. For a detected symptom \<open>s\<close> of the knowledge base, gap analysis maps \<open>s\<close> to its
  required checks without those of \<open>coverage[s]\<close> (no coverage when the key is absent), in
  the declared order. The symptom is a key of the gap result exactly when that list is not
  empty, and the aggregate list holds the checks recorded in the gap map and no others, so
  that a symptom with no missing check contributes to neither.
\<close>

theorem gap_analysis_missing_per_symptom:
  assumes det: "s \<in> set (request_detected data)" and kb: "map_of K s = Some entry"
  shows "let r = fst (gap_analysis K data);
             missing = filter (\<lambda>check. check \<notin> set (get_default (request_coverage data) s []))
                         (required_checks entry)
         in map_of (g_gaps r) s = (if missing = [] then None else Some missing)
            \<and> (s \<in> set (keys (g_gaps r)) \<longleftrightarrow> missing \<noteq> [])
            \<and> set (g_missing_checks r) = \<Union> (set ` snd ` set (g_gaps r))"
proof -
  let ?C = "request_coverage data" and ?D = "request_detected data"
  let ?missing = "filter (\<lambda>check. check \<notin> set (get_default ?C s [])) (required_checks entry)"
  have m: "missing_for K ?C s = ?missing"
    using kb by (simp add: missing_for_def)
  have 1: "map_of (g_gaps (fst (gap_analysis K data))) s =
             (if ?missing = [] then None else Some ?missing)"
    using det by (simp add: gap_analysis_gaps gap_loop_map m)
  have 2: "s \<in> set (keys (g_gaps (fst (gap_analysis K data)))) \<longleftrightarrow> ?missing \<noteq> []"
    using det gap_loop_keys [of K ?C ?D "[]" "[]"] by (simp add: gap_analysis_gaps m keys_def)
  have 3: "set (g_missing_checks (fst (gap_analysis K data))) =
             \<Union> (set ` snd ` set (g_gaps (fst (gap_analysis K data))))"
    by (simp only: gap_analysis_gaps gap_analysis_missing_checks gap_loop_values)
       (simp add: list_of_set_def gap_loop_list)
  from 1 2 3 show ?thesis by (simp only: Let_def)
qed

text \<open>
  The specification's example 2: with duration and severity of chest pain covered, only
  radiation is missing for it; fever, detected twice, keeps both its checks.
\<close>

theorem gap_analysis_missing_per_symptom_witness:
  "''chest_pain'' \<in> set (request_detected example_request)
   \<and> map_of example_kb ''chest_pain''
       = Some \<lparr>required_checks = [''duration'', ''severity'', ''radiation'']\<rparr>
   \<and> map_of (g_gaps (fst (gap_analysis example_kb example_request))) ''chest_pain''
       = Some [''radiation'']
   \<and> ''chest_pain'' \<in> set (keys (g_gaps (fst (gap_analysis example_kb example_request))))
   \<and> set (g_missing_checks (fst (gap_analysis example_kb example_request)))
       = \<Union> (set ` snd ` set (g_gaps (fst (gap_analysis example_kb example_request))))"
proof -
  have h1: "''chest_pain'' \<in> set (request_detected example_request)"
    by (simp add: request_detected_def example_request_def)
  have h2: "map_of example_kb ''chest_pain''
              = Some \<lparr>required_checks = [''duration'', ''severity'', ''radiation'']\<rparr>"
    by (simp add: example_kb_def)
  have c: "get_default (request_coverage example_request) ''chest_pain'' []
             = [''duration'', ''severity'']"
    by (simp add: get_default_def request_coverage_def example_request_def example_coverage_def)
  show ?thesis
    using h1 h2 gap_analysis_missing_per_symptom [OF h1 h2]
    by (simp add: Let_def c)
qed

text \<open>
  Claim C7. The aggregate list of missing checks has no check twice, whatever the detected
  symptoms and the coverage, also when detected symptoms share a required check.
\<close>

theorem missing_checks_distinct:
  "distinct (g_missing_checks (fst (gap_analysis K data)))"
  by (simp add: gap_analysis_missing_checks list_of_set_def)

text \<open>
  The specification's example 1 with nothing covered: chest pain and fever share the check
  duration, which the aggregate list holds once among its four checks.
\<close>

theorem missing_checks_distinct_witness:
  "distinct (g_missing_checks (fst (gap_analysis example_kb uncovered_request)))
   \<and> set (g_missing_checks (fst (gap_analysis example_kb uncovered_request)))
       = {''duration'', ''severity'', ''radiation'', ''temperature''}
   \<and> length (g_missing_checks (fst (gap_analysis example_kb uncovered_request))) = 4"
proof -
  have d: "distinct (g_missing_checks (fst (gap_analysis example_kb uncovered_request)))"
    using missing_checks_distinct [of example_kb uncovered_request] .
  have s: "set (g_missing_checks (fst (gap_analysis example_kb uncovered_request)))
             = {''duration'', ''severity'', ''radiation'', ''temperature''}"
    by (auto simp: gap_analysis_missing_checks list_of_set_def gap_loop_list missing_for_def
        request_detected_def request_coverage_def uncovered_request_def example_kb_def
        get_default_def Let_def)
  have "length (g_missing_checks (fst (gap_analysis example_kb uncovered_request)))
          = card {''duration'', ''severity'', ''radiation'', ''temperature''}"
    using d s distinct_card [of "g_missing_checks (fst (gap_analysis example_kb uncovered_request))"]
    by simp
  then have "length (g_missing_checks (fst (gap_analysis example_kb uncovered_request))) = 4"
    by simp
  with d s show ?thesis by simp
qed

text \<open>
  Claim C8. A detected symptom id that the knowledge base does not have is never a key of
  the gap result, and the analysis still answers with success and status 200; the gap map
  and the aggregate list are the ones of the request without that id.
\<close>

theorem unknown_symptom_excluded:
  assumes "s \<notin> set (keys K)"
  shows "s \<notin> set (keys (g_gaps (fst (gap_analysis K data))))
         \<and> g_success (fst (gap_analysis K data)) \<and> snd (gap_analysis K data) = 200
         \<and> g_gaps (fst (gap_analysis K
              (data\<lparr>gr_detected_symptoms := Some (removeAll s (request_detected data))\<rparr>)))
             = g_gaps (fst (gap_analysis K data))
         \<and> g_missing_checks (fst (gap_analysis K
              (data\<lparr>gr_detected_symptoms := Some (removeAll s (request_detected data))\<rparr>)))
             = g_missing_checks (fst (gap_analysis K data))"
proof -
  let ?data' = "data\<lparr>gr_detected_symptoms := Some (removeAll s (request_detected data))\<rparr>"
  have m: "missing_for K (request_coverage data) s = []"
    using assms by (rule missing_for_unknown)
  have 1: "s \<notin> set (keys (g_gaps (fst (gap_analysis K data))))"
    using gap_loop_keys [of K "request_coverage data" "request_detected data" "[]" "[]"] m
    by (simp add: gap_analysis_gaps keys_def)
  have 2: "g_success (fst (gap_analysis K data))" "snd (gap_analysis K data) = 200"
    by (simp_all add: gap_analysis_unfold)
  have d: "request_detected ?data' = removeAll s (request_detected data)"
    "request_coverage ?data' = request_coverage data"
    by (simp_all add: request_detected_def request_coverage_def)
  have 3: "g_gaps (fst (gap_analysis K ?data')) = g_gaps (fst (gap_analysis K data))"
    "g_missing_checks (fst (gap_analysis K ?data')) = g_missing_checks (fst (gap_analysis K data))"
    using m by (simp_all only: gap_analysis_gaps gap_analysis_missing_checks d gap_loop_removeAll)
  from 1 2 3 show ?thesis by blast
qed

theorem unknown_symptom_excluded_witness:
  "''cough'' \<notin> set (keys example_kb)
   \<and> ''cough'' \<in> set (request_detected example_request)
   \<and> ''cough'' \<notin> set (keys (g_gaps (fst (gap_analysis example_kb example_request))))
   \<and> g_success (fst (gap_analysis example_kb example_request))
   \<and> snd (gap_analysis example_kb example_request) = 200"
proof -
  have h: "''cough'' \<notin> set (keys example_kb)"
    by (simp add: keys_def example_kb_def)
  have d: "''cough'' \<in> set (request_detected example_request)"
    by (simp add: request_detected_def example_request_def)
  show ?thesis
    using h d unknown_symptom_excluded [OF h, of example_request] by simp
qed

text \<open>
  Claim C10. Repeated ids in the detected list change nothing: the list without its
  duplicates gives the same gap for every symptom and the same set of aggregate missing
  checks, for every coverage (also an absent one) and knowledge base.
\<close>

theorem gap_analysis_duplicate_insensitive:
  "map_of (g_gaps (fst (gap_analysis K
       \<lparr>gr_detected_symptoms = Some (remdups D), gr_covered_fields = C\<rparr>)))
     = map_of (g_gaps (fst (gap_analysis K
       \<lparr>gr_detected_symptoms = Some D, gr_covered_fields = C\<rparr>)))
   \<and> set (keys (g_gaps (fst (gap_analysis K
       \<lparr>gr_detected_symptoms = Some (remdups D), gr_covered_fields = C\<rparr>))))
     = set (keys (g_gaps (fst (gap_analysis K
       \<lparr>gr_detected_symptoms = Some D, gr_covered_fields = C\<rparr>))))
   \<and> set (g_missing_checks (fst (gap_analysis K
       \<lparr>gr_detected_symptoms = Some (remdups D), gr_covered_fields = C\<rparr>)))
     = set (g_missing_checks (fst (gap_analysis K
       \<lparr>gr_detected_symptoms = Some D, gr_covered_fields = C\<rparr>)))"
proof -
  let ?r = "\<lparr>gr_detected_symptoms = Some (remdups D), gr_covered_fields = C\<rparr>"
  let ?d = "\<lparr>gr_detected_symptoms = Some D, gr_covered_fields = C\<rparr>"
  have d: "request_detected ?r = remdups D" "request_detected ?d = D"
    by (simp_all add: request_detected_def)
  have c: "request_coverage ?r = request_coverage ?d"
    by (simp add: request_coverage_def)
  have 1: "map_of (g_gaps (fst (gap_analysis K ?r))) = map_of (g_gaps (fst (gap_analysis K ?d)))"
    by (simp add: gap_analysis_gaps d c gap_loop_map fun_eq_iff)
  have 2: "set (keys (g_gaps (fst (gap_analysis K ?r))))
             = set (keys (g_gaps (fst (gap_analysis K ?d))))"
    by (simp add: gap_analysis_gaps d c gap_loop_keys)
  have 3: "set (g_missing_checks (fst (gap_analysis K ?r)))
             = set (g_missing_checks (fst (gap_analysis K ?d)))"
    by (simp add: gap_analysis_missing_checks d c list_of_set_def gap_loop_list)
  from 1 2 3 show ?thesis by (simp only: simp_thms)
qed

section \<open>The initial pass of the pipeline\<close>

text \<open>
  Claim C3. In the initial pass of the interview pipeline, where nothing is covered yet,
  every detected symptom \<open>s\<close> of the knowledge base is mapped to the full list of its required
  checks, as declared.
\<close>

theorem initial_pass_full_required_checks:
  assumes "s \<in> set D" and "map_of K s = Some entry"
  shows "map_of (initial_gaps K D []) s = Some (required_checks entry)"
  using assms by (simp add: initial_gaps_map)

text \<open>The specification's example 1.\<close>

theorem initial_pass_full_required_checks_witness:
  "''fever'' \<in> set [''chest_pain'', ''fever'']
   \<and> map_of example_kb ''fever'' = Some \<lparr>required_checks = [''duration'', ''temperature'']\<rparr>
   \<and> map_of (initial_gaps example_kb [''chest_pain'', ''fever''] []) ''fever''
       = Some [''duration'', ''temperature'']"
proof -
  have h1: "''fever'' \<in> set [''chest_pain'', ''fever'']" by simp
  have h2: "map_of example_kb ''fever''
              = Some \<lparr>required_checks = [''duration'', ''temperature'']\<rparr>"
    by (simp add: example_kb_def)
  show ?thesis
    using h1 h2 initial_pass_full_required_checks [OF h1 h2] by simp
qed

text \<open>
  The gap-analysis operation with an empty coverage agrees with the initial pass on every
  symptom that has a required check; a symptom without any is a key of the initial pass
  only.
\<close>

lemma gap_analysis_empty_coverage:
  assumes "s \<in> set D" and "map_of K s = Some entry" and "required_checks entry \<noteq> []"
  shows "map_of (g_gaps (fst (gap_analysis K
           \<lparr>gr_detected_symptoms = Some D, gr_covered_fields = None\<rparr>))) s
         = map_of (initial_gaps K D []) s"
  using assms
  by (simp add: gap_analysis_gaps gap_loop_map initial_gaps_map request_detected_def
      request_coverage_def missing_for_def get_default_def)

text \<open>The gaps of a successful pipeline response are those of the initial pass.\<close>

lemma process_interview_analysis:
  assumes "fst (fst (process_interview aai llm K file)) = Analysis t d g g' qs"
  shows "d = detect_symptoms K t \<and> g = initial_gaps K d [] \<and> g' = g"
  using assms
  by (auto simp: process_interview_def Let_def split: option.splits if_splits sum.splits)

section \<open>Symptom detection\<close>



lemma detect_symptoms_example:
  "detect_symptoms example_kb example_transcript = [''chest_pain'', ''fever'']"
  by code_simp

section \<open>Question generation\<close>

text \<open>
  Claim C9. When the detected-symptoms list of the request is empty or absent, or its gaps
  map is empty or absent, the question-generation operation answers success with the
  single question "Please provide more information about your symptoms" and status 200, and
  the collaborator is not called: the trace of calls is empty, whatever the collaborator.
\<close>

theorem generate_questions_short_circuit:
  assumes "qr_detected_symptoms data = None \<or> qr_detected_symptoms data = Some []
           \<or> qr_gaps data = None \<or> qr_gaps data = Some []"
  shows "generate_questions llm data =
           ((\<lparr>q_success = True, q_error = None,
              q_questions = [''Please provide more information about your symptoms'']\<rparr>, 200),
            [])"
  using assms by (auto simp: generate_questions_def)

theorem generate_questions_short_circuit_witness:
  "qr_gaps no_gaps_request = None
   \<and> generate_questions failing_llm no_gaps_request =
       ((\<lparr>q_success = True, q_error = None,
          q_questions = [''Please provide more information about your symptoms'']\<rparr>, 200),
        [])"
proof -
  have h: "qr_gaps no_gaps_request = None"
    by (simp add: no_gaps_request_def)
  then have "qr_detected_symptoms no_gaps_request = None
             \<or> qr_detected_symptoms no_gaps_request = Some []
             \<or> qr_gaps no_gaps_request = None \<or> qr_gaps no_gaps_request = Some []"
    by simp
  from h generate_questions_short_circuit [OF this, of failing_llm] show ?thesis by simp
qed

text \<open>
  The question-generation operation degrades when its collaborator raises: it answers status
  200 with the single question list "Unable to generate questions at this time", next to
  the collaborator's message.
\<close>

lemma generate_questions_degrades:
  assumes "qr_detected_symptoms data = Some d" and "d \<noteq> []"
    and "qr_gaps data = Some g" and "g \<noteq> []"
    and "llm d (case qr_transcript data of None \<Rightarrow> [] | Some t \<Rightarrow> t) g = Inl e"
  shows "generate_questions llm data =
           ((\<lparr>q_success = False, q_error = Some e,
              q_questions = [''Unable to generate questions at this time'']\<rparr>, 200),
            [Generate_Call d (case qr_transcript data of None \<Rightarrow> [] | Some t \<Rightarrow> t) g])"
  using assms by (simp add: generate_questions_def Let_def)

text \<open>
  Claim C1. When the question-generation collaborator raises, the interview pipeline is to
  answer as a success with the single generic fallback question list, and not to pass the
  collaborator's error on as a failure. With a transcript that is there and a collaborator
  that raises "quota exceeded", the pipeline answers status 500 with success = false and
  that message, and no question list; the question-generation operation, on the same
  exception, answers status 200 with the fallback list.
\<close>

theorem pipeline_fails_on_generation_error:
  "fst (process_interview example_aai failing_llm example_kb (Some example_audio))
     = (Failure ''quota exceeded'', 500)
   \<and> body_success (fst (fst (process_interview example_aai failing_llm example_kb
        (Some example_audio)))) = Some False
   \<and> body_questions (fst (fst (process_interview example_aai failing_llm example_kb
        (Some example_audio)))) = None
   \<and> fst (generate_questions failing_llm example_questions_request)
     = (\<lparr>q_success = False, q_error = Some ''quota exceeded'',
         q_questions = [''Unable to generate questions at this time'']\<rparr>, 200)"
  by (simp add: process_interview_def generate_questions_def transcribe_audio_def Let_def
      example_aai_def example_transcript_def failing_llm_def example_questions_request_def)

section \<open>Transcription failure\<close>

text \<open>
  A failed or empty transcription ends the pipeline: when the transcription collaborator
  raises, reports an error status, or yields no text or an empty text, the pipeline answers
  status 500 with success = false and a reason in plain words, and nothing runs after the
  transcription call, whatever the knowledge base and the question-generation collaborator.
\<close>

theorem transcription_failure_is_fatal:
  assumes "aai a = AAI_Raises e \<or> aai a = AAI_Status_Error e'
           \<or> aai a = AAI_Text None \<or> aai a = AAI_Text (Some [])"
  shows "process_interview aai llm K (Some a) =
           ((Failure ''Failed to transcribe audio. Check your AssemblyAI API key and internet connection.'',
             500),
            [Transcribe_Call a])"
  using assms
  by (auto simp: process_interview_def transcribe_audio_def transcription_failed_def)

theorem transcription_failure_is_fatal_witness:
  "failed_aai example_audio = AAI_Status_Error ''audio too short''
   \<and> process_interview failed_aai blank_llm example_kb (Some example_audio) =
       ((Failure ''Failed to transcribe audio. Check your AssemblyAI API key and internet connection.'',
         500),
        [Transcribe_Call example_audio])"
proof -
  have h: "failed_aai example_audio = AAI_Status_Error ''audio too short''"
    by (simp add: failed_aai_def)
  show ?thesis
    using h transcription_failure_is_fatal [of failed_aai example_audio "[]"
        "''audio too short''" blank_llm example_kb]
    by simp
qed

text \<open>
  Claim C6. A failed or empty transcription is the one fatal error of the pipeline: it is
  answered with an explicit failure and a reason, and nothing else ends a request in
  failure. With a transcript that is there and not empty, the pipeline still answers status
  500 with success = false when the question-generation collaborator raises
  "connection refused".
\<close>

theorem pipeline_fatal_after_transcription:
  "transcribe_audio example_aai example_audio = Some example_transcript
   \<and> example_transcript \<noteq> []
   \<and> fst (process_interview example_aai unreachable_llm example_kb (Some example_audio))
       = (Failure ''connection refused'', 500)"
  by (simp add: process_interview_def transcribe_audio_def Let_def
      example_aai_def example_transcript_def unreachable_llm_def)

section \<open>Parsing the collaborator's text\<close>

text \<open>
  Claim C5. The collaborator's text is parsed line by line into at most 5 questions, and a
  single fallback question is substituted when the parsing yields none. On a text without a
  line of more than 5 characters the question-generation operation substitutes its fallback
  question; the interview pipeline, which parses the text by the same loop, substitutes
  nothing and returns an empty list of suggested questions.
\<close>

theorem pipeline_no_fallback_question:
  "parse_questions ''N/A'' = []
   \<and> q_questions (fst (fst (generate_questions blank_llm example_questions_request)))
       = [''What other symptoms are you experiencing?'']
   \<and> body_questions (fst (fst (process_interview example_aai blank_llm example_kb
        (Some example_audio)))) = Some []"
proof -
  have p: "parse_questions ''N/A'' = []"
    by code_simp
  have 1: "q_questions (fst (fst (generate_questions blank_llm example_questions_request)))
       = [''What other symptoms are you experiencing?'']"
    by (simp add: generate_questions_def blank_llm_def example_questions_request_def p)
  have 2: "body_questions (fst (fst (process_interview example_aai blank_llm example_kb
        (Some example_audio)))) = Some []"
    by (simp add: process_interview_def transcribe_audio_def Let_def example_aai_def
        example_transcript_def blank_llm_def p)
  from p 1 2 show ?thesis by simp
qed

text \<open>
  The numbering test looks for the dot among the first three characters of the line: a
  number of one or two digits is removed, one of three digits stays.
\<close>

lemma parse_questions_prefixes:
  "parse_questions ''1. What is it?'' = [''What is it?'']"
  "parse_questions ''12. What is it?'' = [''What is it?'']"
  "parse_questions ''100. Is it bad?'' = [''100. Is it bad?'']"
  by code_simp+

end
